theory Spec2Isabelle
  imports Complex_Main
begin

section \<open>Python values\<close>

text \<open>
  The values that \<^verbatim>\<open>json.loads\<close> returns and that the configuration dictionary
  holds. A Python \<^verbatim>\<open>dict\<close> with string keys is a map, so that equality of two
  dictionaries ignores insertion order, as \<^verbatim>\<open>==\<close> does in Python. A float is
  idealised as a real number: the configuration store only copies floats around.
\<close>

datatype pyval =
    PNone
  | PBool bool
  | PInt int
  | PFloat real
  | PStr string
  | PList "pyval list"
  | PDict "string \<Rightarrow> pyval option"

type_synonym pydict = "string \<Rightarrow> pyval option"

datatype exn = OSError | ValueError | AttributeError | NameError

text \<open>\<^verbatim>\<open>d.get(key, default)\<close> on a dictionary.\<close>

definition dict_get :: "pydict \<Rightarrow> string \<Rightarrow> pyval \<Rightarrow> pyval" where
  "dict_get d key dflt = (case d key of Some v \<Rightarrow> v | None \<Rightarrow> dflt)"

text \<open>
  \<^verbatim>\<open>obj.get(key, default)\<close> on any value: only a dictionary has the method, every
  other JSON value raises \<^verbatim>\<open>AttributeError\<close>.
\<close>

definition py_get :: "pyval \<Rightarrow> string \<Rightarrow> pyval \<Rightarrow> exn + pyval" where
  "py_get obj key dflt =
     (case obj of PDict d \<Rightarrow> Inr (dict_get d key dflt) | _ \<Rightarrow> Inl AttributeError)"

text \<open>Python truthiness, as \<^verbatim>\<open>not x\<close> tests it.\<close>

fun truthy :: "pyval \<Rightarrow> bool" where
  "truthy PNone = False"
| "truthy (PBool b) = b"
| "truthy (PInt i) = (i \<noteq> 0)"
| "truthy (PFloat x) = (x \<noteq> 0)"
| "truthy (PStr s) = (s \<noteq> [])"
| "truthy (PList xs) = (xs \<noteq> [])"
| "truthy (PDict d) = (d \<noteq> Map.empty)"

section \<open>Configuration defaults (main.py, lines 27-43)\<close>

definition DEFAULT_CONFIG :: "(string \<times> pyval) list" where
  "DEFAULT_CONFIG =
    [(''wifi_ssid'', PStr ''''),
     (''wifi_password'', PStr ''''),
     (''ap_ssid'', PStr ''LEDClock''),
     (''ap_password'', PStr ''clockconfig''),
     (''ap_mode'', PBool False),
     (''brightness'', PFloat 0.2),
     (''hour_color'', PList [PInt 255, PInt 0, PInt 0]),
     (''minute_color'', PList [PInt 0, PInt 255, PInt 0]),
     (''second_color'', PList [PInt 0, PInt 0, PInt 255]),
     (''marker_color'', PList [PInt 32, PInt 32, PInt 32]),
     (''background_color'', PList [PInt 0, PInt 0, PInt 0]),
     (''mode'', PStr ''standard''),
     (''trail_length'', PInt 3),
     (''pulse_speed'', PInt 5),
     (''rainbow_speed'', PInt 5)]"

text \<open>\<^verbatim>\<open>DEFAULT_CONFIG.copy()\<close>: a fresh dictionary with the default entries.\<close>

definition default_copy :: pydict where
  "default_copy = map_of DEFAULT_CONFIG"

definition default_keys :: "string list" where
  "default_keys = map fst DEFAULT_CONFIG"

section \<open>Program state and platform\<close>

text \<open>
  The content of \<^verbatim>\<open>/config.json\<close> is characterised by what \<^verbatim>\<open>json.loads\<close> does
  with it: it raises \<^verbatim>\<open>ValueError\<close>, or it returns a value. Writing
  \<^verbatim>\<open>json.dumps(config)\<close> stores a text that parses back to \<^verbatim>\<open>config\<close>; this
  property of the JSON library is built into the model of the file.
\<close>

datatype file_content = Malformed | Parsed pyval

text \<open>
  Effects that leave the program, in program order: writes of the configuration file,
  assignments to the access-point flag and calls of the radio and web-server primitives.
\<close>

datatype event =
    FileWrite pyval
  | SetApFlag
  | RadioStartAp pyval pyval
  | RadioConnect pyval pyval bool
  | ServerStart

text \<open>
  The module-level globals the functions touch, the configuration file (\<open>None\<close>: opening
  it for reading raises \<^verbatim>\<open>OSError\<close>) and the state of the radio.
\<close>

record state =
  config :: pydict
  config_file :: "file_content option"
  in_ap_mode :: bool
  pool :: bool
  server :: bool
  led :: "bool option"
  access_point :: "(pyval \<times> pyval) option"
  trace :: "event list"

text \<open>
  What the board and its libraries do when called. None of this is in main.py: it is
  the environment the functions run in, so the functions take it as a parameter. Writing
  the configuration file succeeds, or \<^verbatim>\<open>open(CONFIG_FILE, "w")\<close> raises (a read-only
  file system), or the file is opened, and so emptied, and the write raises. For every
  other primitive the platform says whether the call returns normally.
\<close>

datatype write_outcome = WriteOk | OpenFails | WriteFails

record platform =
  fs_write :: write_outcome
  radio_start_ap :: "pyval \<Rightarrow> pyval \<Rightarrow> bool"
  socketpool_ok :: bool
  httpserver_ok :: bool
  server_start_ok :: bool
  radio_connect :: "pyval \<Rightarrow> pyval \<Rightarrow> bool"

section \<open>The configuration store (main.py, lines 757-789)\<close>

text \<open>
  \<^verbatim>\<open>save_config\<close>: every exception is caught and turned into the result
  \<^verbatim>\<open>False\<close>. When the file could not be opened it is left as it was; when the write
  itself fails the file has been cut short and no longer parses.
\<close>

definition save_config :: "platform \<Rightarrow> state \<Rightarrow> bool \<times> state" where
  "save_config p s =
     (case fs_write p of
        WriteOk \<Rightarrow>
          (True, s\<lparr>config_file := Some (Parsed (PDict (config s))),
                    trace := trace s @ [FileWrite (PDict (config s))]\<rparr>)
      | OpenFails \<Rightarrow> (False, s)
      | WriteFails \<Rightarrow> (False, s\<lparr>config_file := Some Malformed\<rparr>))"

text \<open>\<^verbatim>\<open>json.loads(f.read())\<close> inside \<^verbatim>\<open>with open(CONFIG_FILE, "r")\<close>.\<close>

definition read_json :: "state \<Rightarrow> exn + pyval" where
  "read_json s =
     (case config_file s of
        None \<Rightarrow> Inl OSError
      | Some Malformed \<Rightarrow> Inl ValueError
      | Some (Parsed v) \<Rightarrow> Inr v)"

text \<open>
  The loop \<^verbatim>\<open>for key, value in DEFAULT_CONFIG.items(): config[key] =
  loaded_config.get(key, value)\<close>, which updates the global dictionary in place.
\<close>

fun merge_loop :: "pyval \<Rightarrow> (string \<times> pyval) list \<Rightarrow> pydict \<Rightarrow> exn + pydict" where
  "merge_loop loaded [] c = Inr c"
| "merge_loop loaded ((key, val) # rest) c =
     (case py_get loaded key val of
        Inl e \<Rightarrow> Inl e
      | Inr v \<Rightarrow> merge_loop loaded rest (c(key \<mapsto> v)))"

text \<open>The handler of \<^verbatim>\<open>except (OSError, ValueError)\<close>.\<close>

definition use_defaults_and_save :: "platform \<Rightarrow> state \<Rightarrow> state" where
  "use_defaults_and_save p s = snd (save_config p (s\<lparr>config := default_copy\<rparr>))"

text \<open>
  The dispatch of an exception raised in the inner \<^verbatim>\<open>try\<close>: \<^verbatim>\<open>OSError\<close> and
  \<^verbatim>\<open>ValueError\<close> go to the inner handler, anything else to the outer
  \<^verbatim>\<open>except Exception\<close>, which only resets the configuration.
\<close>

definition handle_load_error :: "platform \<Rightarrow> exn \<Rightarrow> state \<Rightarrow> state" where
  "handle_load_error p e s =
     (if e = OSError \<or> e = ValueError then use_defaults_and_save p s
      else s\<lparr>config := default_copy\<rparr>)"

definition load_config :: "platform \<Rightarrow> state \<Rightarrow> state" where
  "load_config p s =
     (case read_json s of
        Inl e \<Rightarrow> handle_load_error p e s
      | Inr loaded \<Rightarrow>
          (case merge_loop loaded DEFAULT_CONFIG (config s) of
             Inl e \<Rightarrow> handle_load_error p e s
           | Inr c \<Rightarrow> s\<lparr>config := c\<rparr>))"

text \<open>
  What the loop leaves in the dictionary \<open>c\<close> when the loaded value is the dictionary
  \<open>d\<close>: every default key holds the loaded value or else its default, every other key
  of \<open>c\<close> is untouched.
\<close>

definition merged :: "pydict \<Rightarrow> pydict \<Rightarrow> pydict" where
  "merged d c =
     (\<lambda>k. case map_of DEFAULT_CONFIG k of
             Some dv \<Rightarrow> Some (dict_get d k dv)
           | None \<Rightarrow> c k)"

section \<open>Access-point mode (main.py, lines 791-831)\<close>

text \<open>
  \<^verbatim>\<open>blink_led\<close>: nothing happens without an LED object; otherwise every round of
  the loop switches the LED on and off again. The sleeps are not modelled.
\<close>

primrec blink_loop :: "nat \<Rightarrow> bool \<Rightarrow> bool" where
  "blink_loop 0 v = v"
| "blink_loop (Suc n) v = blink_loop n False"

definition blink_led :: "nat \<Rightarrow> state \<Rightarrow> state" where
  "blink_led count s =
     (case led s of None \<Rightarrow> s | Some v \<Rightarrow> s\<lparr>led := Some (blink_loop count v)\<rparr>)"

text \<open>
  \<^verbatim>\<open>setup_routes(True)\<close> (main.py, line 823): main.py neither defines nor imports the
  name \<^verbatim>\<open>setup_routes\<close>, so the call raises \<^verbatim>\<open>NameError\<close> whenever it is
  reached.
\<close>

definition setup_routes :: "bool \<Rightarrow> state \<Rightarrow> exn + state" where
  "setup_routes ap s = Inl NameError"

text \<open>
  \<^verbatim>\<open>start_ap_mode\<close>: the flag is assigned before the \<^verbatim>\<open>try\<close> block; every call
  inside the block may raise, and the handler returns \<^verbatim>\<open>False\<close> with whatever the
  block had assigned until then.
\<close>

definition start_ap_mode :: "platform \<Rightarrow> state \<Rightarrow> bool \<times> state" where
  "start_ap_mode p s =
     (let s1 = s\<lparr>in_ap_mode := True, trace := trace s @ [SetApFlag]\<rparr>;
          ap_ssid = dict_get (config s1) ''ap_ssid'' (PStr ''LEDClock'');
          ap_password = dict_get (config s1) ''ap_password'' (PStr ''clockconfig'');
          s2 = s1\<lparr>trace := trace s1 @ [RadioStartAp ap_ssid ap_password]\<rparr>
      in if \<not> radio_start_ap p ap_ssid ap_password then (False, s2)
         else
           let s3 = blink_led 5 (s2\<lparr>access_point := Some (ap_ssid, ap_password)\<rparr>)
           in if \<not> socketpool_ok p then (False, s3)
              else
                let s4 = s3\<lparr>pool := True\<rparr>
                in if \<not> httpserver_ok p then (False, s4)
                   else
                     let s5 = s4\<lparr>server := True\<rparr>
                     in case setup_routes True s5 of
                          Inl e \<Rightarrow> (False, s5)
                        | Inr s6 \<Rightarrow>
                            if \<not> server_start_ok p then (False, s6)
                            else (True, s6\<lparr>trace := trace s6 @ [ServerStart]\<rparr>))"

text \<open>
  Modelled from the spec: \<^verbatim>\<open>wifi.radio.start_ap\<close>, the radio primitive that
  \<^verbatim>\<open>start_ap_mode\<close> calls and main.py does not contain. The spec: "\<^verbatim>\<open>ap_password\<close>
  must be \<open>\<ge>\<close>8 characters or AP creation fails". The result is whether the call
  returns normally.
\<close>

definition spec_radio_start_ap :: "pyval \<Rightarrow> pyval \<Rightarrow> bool" where
  "spec_radio_start_ap ssid password =
     (case password of PStr pw \<Rightarrow> 8 \<le> length pw | _ \<Rightarrow> False)"

section \<open>Client connection (main.py, lines 833-840)\<close>

text \<open>
  Modelled from the spec: the rest of \<^verbatim>\<open>try_connect_wifi\<close>, which main.py does not
  contain (the file ends after the guard on the SSID). The spec: "enter ConnectingClient
  and attempt a client connection with a bounded timeout"; the attempt is one call of
  the radio's connect primitive, and its outcome is the result.
\<close>

definition connect_client :: "platform \<Rightarrow> state \<Rightarrow> bool \<times> state" where
  "connect_client p s =
     (let ssid = dict_get (config s) ''wifi_ssid'' PNone;
          password = dict_get (config s) ''wifi_password'' PNone;
          ok = radio_connect p ssid password
      in (ok, s\<lparr>trace := trace s @ [RadioConnect ssid password ok]\<rparr>))"

text \<open>
  \<^verbatim>\<open>try_connect_wifi\<close>: with no SSID configured (\<^verbatim>\<open>not config.get("wifi_ssid")\<close>)
  the function returns \<^verbatim>\<open>False\<close> at once.
\<close>

definition try_connect_wifi :: "platform \<Rightarrow> state \<Rightarrow> bool \<times> state" where
  "try_connect_wifi p s =
     (if \<not> truthy (dict_get (config s) ''wifi_ssid'' PNone) then (False, s)
      else connect_client p s)"

text \<open>
  Modelled from the spec: the startup sequence, which main.py does not contain. The
  spec: the core "calls \<^verbatim>\<open>load()\<close> once at startup"; "on startup, if \<^verbatim>\<open>wifi_ssid\<close> is
  non-empty, enter ConnectingClient and attempt a client connection"; "on connection
  failure or absent SSID \<open>\<rightarrow>\<close> APMode".
\<close>

definition startup :: "platform \<Rightarrow> state \<Rightarrow> state" where
  "startup p s =
     (let s1 = load_config p s;
          r = try_connect_wifi p s1
      in if fst r then snd r else snd (start_ap_mode p (snd r)))"

text \<open>
  Modelled from the spec: the ConnectivityState, "one of {Disconnected, ConnectingClient,
  ClientConnected, APMode}". main.py has no such variable; the states a run goes through
  are read off its effects.
\<close>

datatype conn_state = Disconnected | ConnectingClient | ClientConnected | APMode

text \<open>
  Modelled from the spec: the ConnectivityStates an effect enters, which main.py does
  not contain. "Enter ConnectingClient and attempt a client connection"; "on connection
  success \<open>\<rightarrow>\<close> ClientConnected"; "on connection failure or absent SSID \<open>\<rightarrow>\<close> APMode".
\<close>

fun conn_steps :: "event \<Rightarrow> conn_state list" where
  "conn_steps (RadioConnect ssid password ok) =
     (if ok then [ConnectingClient, ClientConnected] else [ConnectingClient])"
| "conn_steps SetApFlag = [APMode]"
| "conn_steps (FileWrite v) = []"
| "conn_steps (RadioStartAp ssid password) = []"
| "conn_steps ServerStart = []"

text \<open>
  Modelled from the spec: the ConnectivityStates of a run, which main.py does not
  record; a run starts in Disconnected ("\<open>Disconnected \<rightarrow> ConnectingClient \<rightarrow>
  ClientConnected\<close>, or \<open>Disconnected \<rightarrow> APMode\<close>").
\<close>

definition conn_history :: "event list \<Rightarrow> conn_state list" where
  "conn_history evs = Disconnected # concat (map conn_steps evs)"

section \<open>Colours and clock geometry\<close>

text \<open>
  Modelled from the spec: the colours of the configuration, which main.py holds only as
  JSON lists. "RGB triples, each channel in [0,255]".
\<close>

type_synonym rgb = "int \<times> int \<times> int"

definition valid_rgb :: "rgb \<Rightarrow> bool" where
  "valid_rgb col =
     (case col of (r, g, b) \<Rightarrow>
        0 \<le> r \<and> r \<le> 255 \<and> 0 \<le> g \<and> g \<le> 255 \<and> 0 \<le> b \<and> b \<le> 255)"

text \<open>
  Modelled from the spec: ColorModel's brightness scaling, which main.py does not
  contain. The spec: "linear-scale an RGB triple by a brightness factor in [0,1] (each
  channel multiplied and clamped to [0,255], rounding down)". The factor is a real
  number.
\<close>

definition scale_channel :: "int \<Rightarrow> real \<Rightarrow> int" where
  "scale_channel c f = max 0 (min 255 \<lfloor>of_int c * f\<rfloor>)"

text \<open>
  Modelled from the spec: ColorModel's brightness scaling of a whole colour, which
  main.py does not contain: every channel of the RGB triple is scaled.
\<close>

definition scale :: "rgb \<Rightarrow> real \<Rightarrow> rgb" where
  "scale col f =
     (case col of (r, g, b) \<Rightarrow> (scale_channel r f, scale_channel g f, scale_channel b f))"

text \<open>
  Modelled from the spec: ClockGeometry, which main.py does not contain. The spec:
  "given a time-of-day (hours, minutes, seconds, fractional seconds), return three
  fractional pixel positions (0.0-60.0, wrapping) for the hour, minute, and second
  hands, using a 60-pixel ring representing one full rotation per 12 hours (hour hand),
  60 minutes (minute hand), and 60 seconds (second hand) respectively. Hour-hand
  position must include the fractional contribution of minutes". The scenario of the
  spec at 03:15:30 ("hour hand offset by 15/60 of an hour-segment", "minute hand at
  pixel 15") fixes that the seconds move neither the hour hand nor the minute hand.
\<close>

record time_of_day =
  hours :: nat
  minutes :: nat
  seconds :: nat
  fraction :: real

text \<open>
  Modelled from the spec: the times of day ClockGeometry is given, which main.py does
  not contain: hours of a 24-hour day, minutes and seconds below 60, and a fraction of
  a second.
\<close>

definition valid_time :: "time_of_day \<Rightarrow> bool" where
  "valid_time t =
     (hours t < 24 \<and> minutes t < 60 \<and> seconds t < 60 \<and> 0 \<le> fraction t \<and> fraction t < 1)"

text \<open>
  Modelled from the spec: the hour hand of ClockGeometry, which main.py does not
  contain. "One full rotation per 12 hours" on 60 pixels is 5 pixels per hour; the
  "hour hand [is] offset by 15/60 of an hour-segment" at a quarter past.
\<close>

definition hour_pos :: "time_of_day \<Rightarrow> real" where
  "hour_pos t = (real (hours t mod 12) + real (minutes t) / 60) * 5"

text \<open>
  Modelled from the spec: the minute hand of ClockGeometry, which main.py does not
  contain. "One full rotation per ... 60 minutes" on 60 pixels is 1 pixel per minute.
\<close>

definition minute_pos :: "time_of_day \<Rightarrow> real" where
  "minute_pos t = real (minutes t)"

text \<open>
  Modelled from the spec: the second hand of ClockGeometry, which main.py does not
  contain. "One full rotation per ... 60 seconds" on 60 pixels is 1 pixel per second,
  the fraction of the second included.
\<close>

definition second_pos :: "time_of_day \<Rightarrow> real" where
  "second_pos t = real (seconds t) + fraction t"

text \<open>
  Modelled from the spec: the "one-second increment" of a time of day, which main.py
  does not contain: the time one second later, with the carries into minutes and hours
  and the wrap at midnight.
\<close>

definition add_second :: "time_of_day \<Rightarrow> time_of_day" where
  "add_second t =
     (if seconds t + 1 < 60 then t\<lparr>seconds := seconds t + 1\<rparr>
      else if minutes t + 1 < 60 then t\<lparr>minutes := minutes t + 1, seconds := 0\<rparr>
      else t\<lparr>hours := (hours t + 1) mod 24, minutes := 0, seconds := 0\<rparr>)"

section \<open>Example inputs\<close>

text \<open>
  A board on which every primitive of the libraries succeeds, with the radio of the
  spec.
\<close>

definition board :: platform where
  "board = \<lparr>fs_write = WriteOk,
             radio_start_ap = spec_radio_start_ap,
             socketpool_ok = True, httpserver_ok = True,
             server_start_ok = True,
             radio_connect = (\<lambda>ssid password. True)\<rparr>"

text \<open>The module-level globals as main.py initialises them (lines 55-65), and no file.\<close>

definition boot_state :: state where
  "boot_state = \<lparr>config = Map.empty, config_file = None, in_ap_mode = False,
                  pool = False, server = False, led = None, access_point = None,
                  trace = []\<rparr>"

text \<open>A configuration file that holds the single key \<^verbatim>\<open>mode\<close>.\<close>

definition partial_file :: file_content where
  "partial_file = Parsed (PDict [''mode'' \<mapsto> PStr ''trail''])"

section \<open>Properties of the configuration store\<close>

lemma distinct_default_keys: "distinct (map fst DEFAULT_CONFIG)"
  by (simp add: DEFAULT_CONFIG_def)

lemma merge_loop_dict:
  "distinct (map fst kvs) \<Longrightarrow>
   merge_loop (PDict d) kvs c =
     Inr (\<lambda>k. case map_of kvs k of Some dv \<Rightarrow> Some (dict_get d k dv) | None \<Rightarrow> c k)"
proof (induction kvs arbitrary: c)
  case Nil
  then show ?case by simp
next
  case (Cons kv rest)
  obtain key val where kv: "kv = (key, val)" by (cases kv)
  from Cons.prems kv have fresh: "map_of rest key = None" and d: "distinct (map fst rest)"
    by (auto simp: map_of_eq_None_iff)
  have "merge_loop (PDict d) (kv # rest) c =
          merge_loop (PDict d) rest (c(key \<mapsto> dict_get d key val))"
    by (simp add: kv py_get_def)
  also have "\<dots> = Inr (\<lambda>k. case map_of rest k of
                Some dv \<Rightarrow> Some (dict_get d k dv)
              | None \<Rightarrow> (c(key \<mapsto> dict_get d key val)) k)"
    by (rule Cons.IH [OF d])
  also have "(\<lambda>k. case map_of rest k of
                Some dv \<Rightarrow> Some (dict_get d k dv)
              | None \<Rightarrow> (c(key \<mapsto> dict_get d key val)) k) =
             (\<lambda>k. case map_of (kv # rest) k of
                Some dv \<Rightarrow> Some (dict_get d k dv) | None \<Rightarrow> c k)"
    by (rule ext) (simp add: kv fresh split: option.splits)
  finally show ?case .
qed

lemma merge_loop_not_dict:
  "(\<And>d. loaded \<noteq> PDict d) \<Longrightarrow> merge_loop loaded ((k, v) # rest) c = Inl AttributeError"
  by (cases loaded) (auto simp: py_get_def)

lemma merge_loop_default_not_dict:
  "(\<And>d. loaded \<noteq> PDict d) \<Longrightarrow> merge_loop loaded DEFAULT_CONFIG c = Inl AttributeError"
  unfolding DEFAULT_CONFIG_def by (rule merge_loop_not_dict)

lemma load_config_dict:
  "config_file s = Some (Parsed (PDict d)) \<Longrightarrow>
   load_config p s = s\<lparr>config := merged d (config s)\<rparr>"
  by (simp add: load_config_def read_json_def merge_loop_dict [OF distinct_default_keys]
      merged_def)

lemma load_config_other:
  "config_file s = Some (Parsed v) \<Longrightarrow> (\<And>d. v \<noteq> PDict d) \<Longrightarrow>
   load_config p s = s\<lparr>config := default_copy\<rparr>"
  by (simp add: load_config_def read_json_def merge_loop_default_not_dict
      handle_load_error_def)

lemma load_config_nofile:
  "config_file s = None \<or> config_file s = Some Malformed \<Longrightarrow>
   load_config p s = use_defaults_and_save p s"
  by (auto simp add: load_config_def read_json_def handle_load_error_def)

lemma config_save_config: "config (snd (save_config p s)) = config s"
  by (simp add: save_config_def split: write_outcome.splits)


lemma trace_save_config:
  "trace (snd (save_config p s)) =
     (if fs_write p = WriteOk then trace s @ [FileWrite (PDict (config s))] else trace s)"
  by (simp add: save_config_def split: write_outcome.splits)

lemma config_file_save_config:
  "config_file (snd (save_config p s)) =
     (case fs_write p of
        WriteOk \<Rightarrow> Some (Parsed (PDict (config s)))
      | OpenFails \<Rightarrow> config_file s
      | WriteFails \<Rightarrow> Some Malformed)"
  by (simp add: save_config_def split: write_outcome.splits)

lemma dom_default_copy: "dom default_copy = set default_keys"
  by (simp add: default_copy_def default_keys_def dom_map_of_conv_image_fst)

lemma dom_merged: "set default_keys \<subseteq> dom (merged d c)"
  by (auto simp: merged_def default_keys_def dom_def split: option.splits
      dest!: weak_map_of_SomeI [rotated])

lemma merged_default_entry:
  "(key, dv) \<in> set DEFAULT_CONFIG \<Longrightarrow> merged d c key = Some (dict_get d key dv)"
  using distinct_default_keys by (simp add: merged_def)

lemma default_copy_entry:
  "(key, dv) \<in> set DEFAULT_CONFIG \<Longrightarrow> default_copy key = Some dv"
  using distinct_default_keys by (simp add: default_copy_def)

lemma merged_idem: "merged d (merged d c) = merged d c"
  by (rule ext) (simp add: merged_def split: option.splits)

lemma merged_default_copy: "merged default_copy default_copy = default_copy"
  by (rule ext) (simp add: merged_def default_copy_def dict_get_def split: option.splits)

lemma load_config_idem: "load_config p (load_config p s) = load_config p s"
proof (cases "config_file s")
  case None
  then have l: "load_config p s = use_defaults_and_save p s"
    by (simp add: load_config_nofile)
  show ?thesis
  proof (cases "fs_write p")
    case WriteOk
    then have f: "config_file (load_config p s) = Some (Parsed (PDict default_copy))"
      and c: "config (load_config p s) = default_copy"
      by (simp_all add: l use_defaults_and_save_def save_config_def)
    show ?thesis by (simp add: load_config_dict [OF f] c merged_default_copy)
  next
    case OpenFails
    then have s': "load_config p s = s\<lparr>config := default_copy\<rparr>"
      by (simp add: l use_defaults_and_save_def save_config_def)
    have "config_file (s\<lparr>config := default_copy\<rparr>) = None \<or>
          config_file (s\<lparr>config := default_copy\<rparr>) = Some Malformed"
      using None by simp
    from load_config_nofile [OF this, of p] show ?thesis
      using OpenFails by (simp add: s' use_defaults_and_save_def save_config_def)
  next
    case WriteFails
    then have s': "load_config p s = s\<lparr>config := default_copy, config_file := Some Malformed\<rparr>"
      by (simp add: l use_defaults_and_save_def save_config_def)
    have "config_file (s\<lparr>config := default_copy, config_file := Some Malformed\<rparr>) = None \<or>
          config_file (s\<lparr>config := default_copy, config_file := Some Malformed\<rparr>) = Some Malformed"
      by simp
    from load_config_nofile [OF this, of p] show ?thesis
      using WriteFails by (simp add: s' use_defaults_and_save_def save_config_def)
  qed
next
  case (Some content)
  show ?thesis
  proof (cases content)
    case Malformed
    with Some have l: "load_config p s = use_defaults_and_save p s"
      by (simp add: load_config_nofile)
    show ?thesis
    proof (cases "fs_write p")
      case WriteOk
      then have f: "config_file (load_config p s) = Some (Parsed (PDict default_copy))"
        and c: "config (load_config p s) = default_copy"
        by (simp_all add: l use_defaults_and_save_def save_config_def)
      show ?thesis by (simp add: load_config_dict [OF f] c merged_default_copy)
    next
      case OpenFails
      then have s': "load_config p s = s\<lparr>config := default_copy\<rparr>"
        by (simp add: l use_defaults_and_save_def save_config_def)
      have "config_file (s\<lparr>config := default_copy\<rparr>) = None \<or>
            config_file (s\<lparr>config := default_copy\<rparr>) = Some Malformed"
        using Some Malformed by simp
      from load_config_nofile [OF this, of p] show ?thesis
        using OpenFails by (simp add: s' use_defaults_and_save_def save_config_def)
    next
      case WriteFails
      then have s': "load_config p s = s\<lparr>config := default_copy, config_file := Some Malformed\<rparr>"
        by (simp add: l use_defaults_and_save_def save_config_def)
      have "config_file (s\<lparr>config := default_copy, config_file := Some Malformed\<rparr>) = None \<or>
            config_file (s\<lparr>config := default_copy, config_file := Some Malformed\<rparr>) = Some Malformed"
        by simp
      from load_config_nofile [OF this, of p] show ?thesis
        using WriteFails by (simp add: s' use_defaults_and_save_def save_config_def)
    qed
  next
    case (Parsed v)
    show ?thesis
    proof (cases "\<exists>d. v = PDict d")
      case True
      then obtain d where f: "config_file s = Some (Parsed (PDict d))"
        using Some Parsed by auto
      then have f': "config_file (s\<lparr>config := merged d (config s)\<rparr>) = Some (Parsed (PDict d))"
        by simp
      show ?thesis
        by (simp add: load_config_dict [OF f] load_config_dict [OF f'] merged_idem)
    next
      case False
      then have nd: "\<And>d. v \<noteq> PDict d" by simp
      have f: "config_file s = Some (Parsed v)" using Some Parsed by simp
      then have f': "config_file (s\<lparr>config := default_copy\<rparr>) = Some (Parsed v)" by simp
      show ?thesis
        by (simp add: load_config_other [OF f nd] load_config_other [OF f' nd])
    qed
  qed
qed

text \<open>
  Claim C1, as amended. When the file parses as JSON, \<^verbatim>\<open>load_config\<close> gives every key
  of the default set the value a JSON object in the file has for it, or else its
  default, in the configuration in memory only: the file is left as it was and nothing
  is written.
\<close>

theorem load_config_fills_in_memory_only:
  assumes "config_file s = Some (Parsed v)"
  shows "(\<forall>key dv. (key, dv) \<in> set DEFAULT_CONFIG \<longrightarrow>
            config (load_config p s) key =
              Some (case v of PDict d \<Rightarrow> dict_get d key dv | _ \<Rightarrow> dv)) \<and>
         config_file (load_config p s) = config_file s \<and>
         trace (load_config p s) = trace s"
proof (cases "\<exists>d. v = PDict d")
  case True
  then obtain d where v: "v = PDict d" by blast
  with assms have "load_config p s = s\<lparr>config := merged d (config s)\<rparr>"
    by (simp add: load_config_dict)
  then show ?thesis by (simp add: v merged_default_entry)
next
  case False
  then have nd: "\<And>d. v \<noteq> PDict d" by simp
  from False have c: "(case v of PDict d \<Rightarrow> dict_get d key dv | _ \<Rightarrow> dv) = dv" for key dv
    by (cases v) simp_all
  from load_config_other [OF assms nd, of p] show ?thesis
    by (simp add: c default_copy_entry)
qed

theorem load_config_fills_in_memory_only_witness:
  "config (load_config board (boot_state\<lparr>config_file := Some partial_file\<rparr>)) ''trail_length''
     = Some (PInt 3) \<and>
   config (load_config board (boot_state\<lparr>config_file := Some partial_file\<rparr>)) ''mode''
     = Some (PStr ''trail'') \<and>
   config_file (load_config board (boot_state\<lparr>config_file := Some partial_file\<rparr>))
     = Some partial_file"
proof -
  have f: "config_file (boot_state\<lparr>config_file := Some partial_file\<rparr>) =
           Some (Parsed (PDict [''mode'' \<mapsto> PStr ''trail'']))"
    by (simp add: partial_file_def)
  have a: "(''trail_length'', PInt 3) \<in> set DEFAULT_CONFIG"
    and b: "(''mode'', PStr ''standard'') \<in> set DEFAULT_CONFIG"
    by (simp_all add: DEFAULT_CONFIG_def)
  from load_config_fills_in_memory_only [OF f, of board] a b show ?thesis
    by (simp add: dict_get_def)
qed

text \<open>
  Claim C1 as stated fails: after loading a file that holds only \<^verbatim>\<open>mode\<close>, on a
  board whose file system can be written, the file is not the merged configuration, and
  no write has happened.
\<close>

theorem load_config_no_write_back_counterexample:
  "config_file (load_config board (boot_state\<lparr>config_file := Some partial_file\<rparr>))
     \<noteq> Some (Parsed (PDict
           (config (load_config board (boot_state\<lparr>config_file := Some partial_file\<rparr>))))) \<and>
   trace (load_config board (boot_state\<lparr>config_file := Some partial_file\<rparr>)) = []"
proof -
  have f: "config_file (boot_state\<lparr>config_file := Some partial_file\<rparr>) =
           Some (Parsed (PDict [''mode'' \<mapsto> PStr ''trail'']))"
    by (simp add: partial_file_def)
  have a: "(''trail_length'', PInt 3) \<in> set DEFAULT_CONFIG"
    by (simp add: DEFAULT_CONFIG_def)
  have "merged [''mode'' \<mapsto> PStr ''trail''] Map.empty ''trail_length'' = Some (PInt 3)"
    using merged_default_entry [OF a] by (simp add: dict_get_def)
  then have "[''mode'' \<mapsto> PStr ''trail''] \<noteq> merged [''mode'' \<mapsto> PStr ''trail''] Map.empty"
    by (auto simp: fun_eq_iff intro!: exI [of _ "''trail_length''"])
  then show ?thesis
    unfolding load_config_dict [OF f] by (simp add: partial_file_def boot_state_def)
qed

text \<open>
  Claim C5. After \<^verbatim>\<open>load_config\<close>, whatever the file was (absent or unreadable,
  malformed, a JSON object with any keys, any other JSON value) and whatever happens to
  a write, the configuration has every key of the default set.
\<close>

theorem load_config_fully_populated:
  "set default_keys \<subseteq> dom (config (load_config p s))"
proof (cases "read_json s")
  case (Inl e)
  then have "load_config p s = use_defaults_and_save p s"
    by (auto simp: read_json_def intro!: load_config_nofile
             split: option.splits file_content.splits)
  then show ?thesis
    by (simp add: use_defaults_and_save_def config_save_config dom_default_copy)
next
  case (Inr v)
  then have f: "config_file s = Some (Parsed v)"
    by (auto simp: read_json_def split: option.splits file_content.splits)
  show ?thesis
  proof (cases "\<exists>d. v = PDict d")
    case True
    then obtain d where "config_file s = Some (Parsed (PDict d))" using f by auto
    then show ?thesis by (simp add: load_config_dict dom_merged)
  next
    case False
    then show ?thesis using f by (simp add: load_config_other dom_default_copy)
  qed
qed

theorem load_config_fully_populated_witness:
  "''brightness'' \<in> dom (config (load_config board boot_state))"
  using load_config_fully_populated [of board boot_state]
  by (simp add: default_keys_def DEFAULT_CONFIG_def subset_iff)






text \<open>
  Claim C6. Loading twice in a row gives the same state as loading once, whatever the
  file; and when the file is a JSON object, every default key the file has keeps the
  file's value in the configuration, and the file itself is not changed.
\<close>

theorem load_config_twice:
  "load_config p (load_config p s) = load_config p s \<and>
   (\<forall>d key val. config_file s = Some (Parsed (PDict d)) \<and> key \<in> set default_keys \<and>
        d key = Some val \<longrightarrow>
      config (load_config p s) key = Some val \<and>
      config (load_config p (load_config p s)) key = Some val \<and>
      config_file (load_config p s) = config_file s)"
proof -
  have keep: "config (load_config p s) key = Some val \<and>
              config_file (load_config p s) = config_file s"
    if "config_file s = Some (Parsed (PDict d))" "key \<in> set default_keys" "d key = Some val"
    for d key val
  proof -
    from that(2) obtain dv where "(key, dv) \<in> set DEFAULT_CONFIG"
      by (auto simp: default_keys_def)
    then show ?thesis using that(1,3)
      by (simp add: load_config_dict merged_default_entry dict_get_def)
  qed
  show ?thesis
  proof (intro conjI allI impI)
    show "load_config p (load_config p s) = load_config p s"
      by (rule load_config_idem)
  next
    fix d key val
    assume a: "config_file s = Some (Parsed (PDict d)) \<and> key \<in> set default_keys \<and>
      d key = Some val"
    with keep [of d key val]
    show "config (load_config p s) key = Some val"
      and "config (load_config p (load_config p s)) key = Some val"
      and "config_file (load_config p s) = config_file s"
      by (simp_all add: load_config_idem)
  qed
qed

theorem load_config_twice_witness:
  "config (load_config board (load_config board (boot_state\<lparr>config_file := Some partial_file\<rparr>)))
     ''mode'' = Some (PStr ''trail'')"
proof -
  have f: "config_file (boot_state\<lparr>config_file := Some partial_file\<rparr>) =
           Some (Parsed (PDict [''mode'' \<mapsto> PStr ''trail'']))"
    by (simp add: partial_file_def)
  have k: "''mode'' \<in> set default_keys"
    by (simp add: default_keys_def DEFAULT_CONFIG_def)
  from load_config_twice [of board "boot_state\<lparr>config_file := Some partial_file\<rparr>"] f k
  show ?thesis by simp
qed

section \<open>Properties of access-point mode and startup\<close>

lemma trace_blink_led: "trace (blink_led n s) = trace s"
  by (simp add: blink_led_def split: option.splits)

lemma in_ap_mode_blink_led: "in_ap_mode (blink_led n s) = in_ap_mode s"
  by (simp add: blink_led_def split: option.splits)

lemma access_point_blink_led: "access_point (blink_led n s) = access_point s"
  by (simp add: blink_led_def split: option.splits)

lemma start_ap_mode_rejected:
  assumes "\<not> radio_start_ap p (dict_get (config s) ''ap_ssid'' (PStr ''LEDClock''))
                              (dict_get (config s) ''ap_password'' (PStr ''clockconfig''))"
  shows "start_ap_mode p s =
           (False, s\<lparr>in_ap_mode := True,
                     trace := trace s @
                       [SetApFlag,
                        RadioStartAp (dict_get (config s) ''ap_ssid'' (PStr ''LEDClock''))
                          (dict_get (config s) ''ap_password'' (PStr ''clockconfig''))]\<rparr>)"
  using assms by (simp add: start_ap_mode_def Let_def)

lemma pool_blink_led: "pool (blink_led n s) = pool s"
  by (simp add: blink_led_def split: option.splits)

lemma server_blink_led: "server (blink_led n s) = server s"
  by (simp add: blink_led_def split: option.splits)

lemma start_ap_mode_never_True: "fst (start_ap_mode p s) = False"
  by (simp add: start_ap_mode_def Let_def setup_routes_def)

lemma start_ap_mode_accepted:
  assumes "radio_start_ap p (dict_get (config s) ''ap_ssid'' (PStr ''LEDClock''))
                            (dict_get (config s) ''ap_password'' (PStr ''clockconfig''))"
    and "socketpool_ok p" and "httpserver_ok p"
  shows "access_point (snd (start_ap_mode p s)) =
           Some (dict_get (config s) ''ap_ssid'' (PStr ''LEDClock''),
                 dict_get (config s) ''ap_password'' (PStr ''clockconfig''))"
    and "pool (snd (start_ap_mode p s))"
    and "server (snd (start_ap_mode p s))"
    and "trace (snd (start_ap_mode p s)) =
           trace s @ [SetApFlag,
                      RadioStartAp (dict_get (config s) ''ap_ssid'' (PStr ''LEDClock''))
                        (dict_get (config s) ''ap_password'' (PStr ''clockconfig''))]"
  using assms
  by (simp_all add: start_ap_mode_def Let_def setup_routes_def access_point_blink_led
      pool_blink_led server_blink_led trace_blink_led)

lemma start_ap_mode_flag: "in_ap_mode (snd (start_ap_mode p s))"
  by (simp add: start_ap_mode_def Let_def setup_routes_def in_ap_mode_blink_led)

lemma start_ap_mode_trace:
  "\<exists>rest. trace (snd (start_ap_mode p s)) =
      trace s @ SetApFlag #
        RadioStartAp (dict_get (config s) ''ap_ssid'' (PStr ''LEDClock''))
          (dict_get (config s) ''ap_password'' (PStr ''clockconfig'')) # rest \<and>
      set rest \<subseteq> {ServerStart}"
  by (simp add: start_ap_mode_def Let_def setup_routes_def trace_blink_led)

text \<open>
  Claim C2, where the code departs from it. \<^verbatim>\<open>start_ap_mode\<close> never returns
  \<^verbatim>\<open>True\<close>, whatever the password and whatever the radio does. When the radio
  creates the access point and the socket pool and the HTTP server are built, the call
  of \<^verbatim>\<open>setup_routes\<close> raises, and the handler returns \<^verbatim>\<open>False\<close>: the access point
  exists with the password as configured, the radio has been called exactly once, and
  the web server has not been started.
\<close>

theorem start_ap_mode_never_succeeds:
  "fst (start_ap_mode p s) = False \<and>
   (radio_start_ap p (dict_get (config s) ''ap_ssid'' (PStr ''LEDClock''))
        (dict_get (config s) ''ap_password'' (PStr ''clockconfig'')) \<and>
    socketpool_ok p \<and> httpserver_ok p \<longrightarrow>
      access_point (snd (start_ap_mode p s)) =
        Some (dict_get (config s) ''ap_ssid'' (PStr ''LEDClock''),
              dict_get (config s) ''ap_password'' (PStr ''clockconfig'')) \<and>
      pool (snd (start_ap_mode p s)) \<and>
      server (snd (start_ap_mode p s)) \<and>
      trace (snd (start_ap_mode p s)) =
        trace s @ [SetApFlag,
                   RadioStartAp (dict_get (config s) ''ap_ssid'' (PStr ''LEDClock''))
                     (dict_get (config s) ''ap_password'' (PStr ''clockconfig''))])"
  using start_ap_mode_never_True [of p s] start_ap_mode_accepted [of p s] by blast

theorem start_ap_mode_never_succeeds_witness:
  "fst (start_ap_mode board (boot_state\<lparr>config := [''ap_password'' \<mapsto> PStr ''12345678'']\<rparr>))
     = False \<and>
   access_point (snd (start_ap_mode board
       (boot_state\<lparr>config := [''ap_password'' \<mapsto> PStr ''12345678'']\<rparr>)))
     = Some (PStr ''LEDClock'', PStr ''12345678'') \<and>
   trace (snd (start_ap_mode board
       (boot_state\<lparr>config := [''ap_password'' \<mapsto> PStr ''12345678'']\<rparr>)))
     = [SetApFlag, RadioStartAp (PStr ''LEDClock'') (PStr ''12345678'')]"
  using start_ap_mode_never_succeeds
    [of board "boot_state\<lparr>config := [''ap_password'' \<mapsto> PStr ''12345678'']\<rparr>"]
  by (simp add: board_def boot_state_def spec_radio_start_ap_def dict_get_def)

text \<open>
  Claim C10. After every call of \<^verbatim>\<open>start_ap_mode\<close> the flag \<^verbatim>\<open>in_ap_mode\<close> is
  \<^verbatim>\<open>True\<close>; it is set before the radio is asked to create the access point; and
  when that call raises, the function returns \<^verbatim>\<open>False\<close> with no access point and
  the flag still \<^verbatim>\<open>True\<close>.
\<close>

theorem start_ap_mode_flag_stays_set:
  "in_ap_mode (snd (start_ap_mode p s)) \<and>
   (\<exists>rest. trace (snd (start_ap_mode p s)) =
      trace s @ SetApFlag #
        RadioStartAp (dict_get (config s) ''ap_ssid'' (PStr ''LEDClock''))
          (dict_get (config s) ''ap_password'' (PStr ''clockconfig'')) # rest) \<and>
   (\<not> radio_start_ap p (dict_get (config s) ''ap_ssid'' (PStr ''LEDClock''))
        (dict_get (config s) ''ap_password'' (PStr ''clockconfig'')) \<longrightarrow>
      fst (start_ap_mode p s) = False \<and> in_ap_mode (snd (start_ap_mode p s)) \<and>
      access_point (snd (start_ap_mode p s)) = access_point s)"
proof (intro conjI impI)
  show "in_ap_mode (snd (start_ap_mode p s))" by (rule start_ap_mode_flag)
  then show "in_ap_mode (snd (start_ap_mode p s))" .
  from start_ap_mode_trace [of p s]
  show "\<exists>rest. trace (snd (start_ap_mode p s)) =
      trace s @ SetApFlag #
        RadioStartAp (dict_get (config s) ''ap_ssid'' (PStr ''LEDClock''))
          (dict_get (config s) ''ap_password'' (PStr ''clockconfig'')) # rest"
    by blast
next
  assume "\<not> radio_start_ap p (dict_get (config s) ''ap_ssid'' (PStr ''LEDClock''))
        (dict_get (config s) ''ap_password'' (PStr ''clockconfig''))"
  from start_ap_mode_rejected [OF this]
  show "fst (start_ap_mode p s) = False"
    and "access_point (snd (start_ap_mode p s)) = access_point s"
    by simp_all
qed

theorem start_ap_mode_flag_stays_set_witness:
  "fst (start_ap_mode board (boot_state\<lparr>config := [''ap_password'' \<mapsto> PStr ''short'']\<rparr>))
     = False \<and>
   in_ap_mode (snd (start_ap_mode board
     (boot_state\<lparr>config := [''ap_password'' \<mapsto> PStr ''short'']\<rparr>)))"
  using start_ap_mode_flag_stays_set
    [of board "boot_state\<lparr>config := [''ap_password'' \<mapsto> PStr ''short'']\<rparr>"]
  by (simp add: board_def spec_radio_start_ap_def dict_get_def)

lemma try_connect_wifi_no_ssid:
  "\<not> truthy (dict_get (config s) ''wifi_ssid'' PNone) \<Longrightarrow> try_connect_wifi p s = (False, s)"
  by (simp add: try_connect_wifi_def)

lemma trace_load_config:
  "trace (load_config p s) = trace s \<or>
   trace (load_config p s) = trace s @ [FileWrite (PDict default_copy)]"
  by (auto simp: load_config_def handle_load_error_def use_defaults_and_save_def
      save_config_def split: sum.splits write_outcome.splits)

text \<open>
  Claim C3. When the configuration that startup loads has the empty string as
  \<^verbatim>\<open>wifi_ssid\<close>, \<^verbatim>\<open>try_connect_wifi\<close> returns \<^verbatim>\<open>False\<close> without touching the
  state, the run goes from Disconnected straight to APMode, and no client connection is
  ever attempted.
\<close>

theorem startup_without_ssid:
  assumes "config (load_config p s) ''wifi_ssid'' = Some (PStr [])" and "trace s = []"
  shows "try_connect_wifi p (load_config p s) = (False, load_config p s) \<and>
         conn_history (trace (startup p s)) = [Disconnected, APMode] \<and>
         (\<forall>ssid password ok. RadioConnect ssid password ok \<notin> set (trace (startup p s))) \<and>
         in_ap_mode (startup p s)"
proof -
  have g: "\<not> truthy (dict_get (config (load_config p s)) ''wifi_ssid'' PNone)"
    using assms(1) by (simp add: dict_get_def)
  then have t: "try_connect_wifi p (load_config p s) = (False, load_config p s)"
    by (rule try_connect_wifi_no_ssid)
  then have st: "startup p s = snd (start_ap_mode p (load_config p s))"
    by (simp add: startup_def Let_def)
  from start_ap_mode_trace [of p "load_config p s"] obtain rest where
    tr: "trace (startup p s) = trace (load_config p s) @ SetApFlag #
        RadioStartAp (dict_get (config (load_config p s)) ''ap_ssid'' (PStr ''LEDClock''))
          (dict_get (config (load_config p s)) ''ap_password'' (PStr ''clockconfig'')) # rest"
    and rest: "set rest \<subseteq> {ServerStart}"
    unfolding st by blast
  have steps_rest: "concat (map conn_steps rest) = []"
    using rest by (induction rest) auto
  have no_rest: "RadioConnect a b ok \<notin> set rest" for a b ok
    using rest by auto
  from trace_load_config [of p s] assms(2)
  have l: "trace (load_config p s) = [] \<or>
           trace (load_config p s) = [FileWrite (PDict default_copy)]"
    by simp
  then have h: "conn_history (trace (startup p s)) = [Disconnected, APMode]"
    by (auto simp: tr conn_history_def steps_rest)
  from l have n: "RadioConnect a b ok \<notin> set (trace (startup p s))" for a b ok
    by (auto simp: tr no_rest)
  from t h n show ?thesis by (simp add: st start_ap_mode_flag)
qed

theorem startup_without_ssid_witness:
  "conn_history (trace (startup board boot_state)) = [Disconnected, APMode] \<and>
   in_ap_mode (startup board boot_state)"
proof -
  have "load_config board boot_state = use_defaults_and_save board boot_state"
    by (rule load_config_nofile) (simp add: boot_state_def)
  then have a: "config (load_config board boot_state) ''wifi_ssid'' = Some (PStr [])"
    by (simp add: use_defaults_and_save_def config_save_config default_copy_def
        DEFAULT_CONFIG_def)
  have b: "trace boot_state = []" by (simp add: boot_state_def)
  from startup_without_ssid [OF a b] show ?thesis by simp
qed

section \<open>Properties of the colour scaling and the clock geometry\<close>

lemma scale_channel_zero: "scale_channel c 0 = 0"
  by (simp add: scale_channel_def)

lemma scale_channel_one: "0 \<le> c \<Longrightarrow> c \<le> 255 \<Longrightarrow> scale_channel c 1 = c"
  by (simp add: scale_channel_def)

lemma scale_channel_range: "0 \<le> scale_channel c f \<and> scale_channel c f \<le> 255"
  by (simp add: scale_channel_def)

lemma scale_channel_mono:
  assumes "0 \<le> c" and "f \<le> g"
  shows "scale_channel c f \<le> scale_channel c g"
proof -
  have "of_int c * f \<le> of_int c * g"
    using assms by (simp add: mult_left_mono)
  then have "\<lfloor>of_int c * f\<rfloor> \<le> \<lfloor>of_int c * g\<rfloor>"
    by (rule floor_mono)
  then show ?thesis by (simp add: scale_channel_def)
qed

lemma scale_channel_unclamped:
  assumes "0 \<le> c" and "c \<le> 255" and "0 \<le> f" and "f \<le> 1"
  shows "scale_channel c f = \<lfloor>of_int c * f\<rfloor>"
proof -
  have lo: "0 \<le> of_int c * f" using assms by simp
  have "of_int c * f \<le> of_int c * 1"
    using assms by (intro mult_left_mono) simp_all
  then have "of_int c * f \<le> 255" using assms by simp
  then have "\<lfloor>of_int c * f\<rfloor> \<le> 255" by (simp add: floor_le_iff)
  moreover from lo have "0 \<le> \<lfloor>of_int c * f\<rfloor>" by simp
  ultimately show ?thesis by (simp add: scale_channel_def)
qed

text \<open>
  Claim C9. For every RGB colour with channels in [0,255]: scaling by 0 gives black,
  scaling by 1 gives the colour back, every scaled channel is in [0,255], for a factor
  in [0,1] every channel is the product rounded down, and every channel is
  non-decreasing in the factor.
\<close>

theorem scale_properties:
  assumes "valid_rgb col"
  shows "scale col 0 = (0, 0, 0) \<and>
         scale col 1 = col \<and>
         valid_rgb (scale col f) \<and>
         (0 \<le> f \<and> f \<le> 1 \<longrightarrow>
            scale col f =
              (case col of (r, g, b) \<Rightarrow>
                 (\<lfloor>of_int r * f\<rfloor>, \<lfloor>of_int g * f\<rfloor>, \<lfloor>of_int b * f\<rfloor>))) \<and>
         (f \<le> f' \<longrightarrow>
            fst (scale col f) \<le> fst (scale col f') \<and>
            fst (snd (scale col f)) \<le> fst (snd (scale col f')) \<and>
            snd (snd (scale col f)) \<le> snd (snd (scale col f')))"
proof -
  obtain r g b where col: "col = (r, g, b)" by (cases col)
  with assms have v: "0 \<le> r" "r \<le> 255" "0 \<le> g" "g \<le> 255" "0 \<le> b" "b \<le> 255"
    by (simp_all add: valid_rgb_def)
  have z: "scale col 0 = (0, 0, 0)"
    by (simp add: col scale_def scale_channel_zero)
  have o: "scale col 1 = col"
    using v by (simp add: col scale_def scale_channel_one)
  have r: "valid_rgb (scale col f)"
    by (simp add: col scale_def valid_rgb_def scale_channel_range)
  have u: "scale col f = (case col of (r, g, b) \<Rightarrow>
                 (\<lfloor>of_int r * f\<rfloor>, \<lfloor>of_int g * f\<rfloor>, \<lfloor>of_int b * f\<rfloor>))"
    if "0 \<le> f \<and> f \<le> 1"
    using v that by (simp add: col scale_def scale_channel_unclamped)
  have m: "fst (scale col f) \<le> fst (scale col f') \<and>
            fst (snd (scale col f)) \<le> fst (snd (scale col f')) \<and>
            snd (snd (scale col f)) \<le> snd (snd (scale col f'))"
    if "f \<le> f'"
    using v that by (simp add: col scale_def scale_channel_mono)
  from z o r u m show ?thesis by blast
qed

theorem scale_properties_witness:
  "scale (255, 128, 0) 0 = (0, 0, 0) \<and> scale (255, 128, 0) 1 = (255, 128, 0) \<and>
   scale (255, 128, 0) (1 / 2) = (127, 64, 0) \<and>
   fst (scale (255, 128, 0) (1 / 5)) \<le> fst (scale (255, 128, 0) (1 / 2))"
proof -
  have v: "valid_rgb (255, 128, 0)" by (simp add: valid_rgb_def)
  from scale_properties [OF v, of "1 / 2" "1 / 2"] scale_properties [OF v, of "1 / 5" "1 / 2"]
  show ?thesis by simp
qed

lemma second_pos_add_second:
  "valid_time t \<Longrightarrow>
   second_pos (add_second t) = (if seconds t = 59 then second_pos t + 1 - 60 else second_pos t + 1)"
  by (auto simp: valid_time_def add_second_def second_pos_def)

lemma hour_pos_minutes_step:
  "hour_pos (t\<lparr>minutes := m + 1\<rparr>) = hour_pos (t\<lparr>minutes := m\<rparr>) + 1 / 12"
  by (simp add: hour_pos_def field_simps)

lemma hour_pos_minutes_mono:
  "m \<le> m' \<Longrightarrow> hour_pos (t\<lparr>minutes := m\<rparr>) \<le> hour_pos (t\<lparr>minutes := m'\<rparr>)"
  by (simp add: hour_pos_def)

lemma hour_pos_segment:
  "minutes t < 60 \<Longrightarrow>
   5 * real (hours t mod 12) \<le> hour_pos t \<and> hour_pos t < 5 * real (hours t mod 12) + 5"
  by (simp add: hour_pos_def field_simps)

lemma hour_carry:
  "Suc h mod 24 mod 12 = (if h mod 12 < 11 then h mod 12 + 1 else 0)" for h :: nat
proof -
  have "Suc h mod 24 mod 12 = Suc h mod 12"
    by (simp add: mod_mod_cancel)
  also have "\<dots> = (if h mod 12 < 11 then h mod 12 + 1 else 0)"
  proof -
    have "h mod 12 < 12" by simp
    then show ?thesis by (auto simp: mod_Suc)
  qed
  finally show ?thesis .
qed

lemma hour_pos_add_second:
  assumes "valid_time t"
  shows "hour_pos (add_second t) =
     (if seconds t < 59 then hour_pos t
      else if minutes t < 59 \<or> hours t mod 12 < 11 then hour_pos t + 1 / 12
      else hour_pos t + 1 / 12 - 60)"
proof -
  from assms have m: "minutes t < 60" and s: "seconds t < 60"
    by (simp_all add: valid_time_def)
  consider (same) "seconds t < 59"
    | (minute) "seconds t = 59" "minutes t < 59"
    | (hour) "seconds t = 59" "minutes t = 59" "hours t mod 12 < 11"
    | (wrap) "seconds t = 59" "minutes t = 59" "hours t mod 12 = 11"
    using m s by linarith
  then show ?thesis
  proof cases
    case same
    then show ?thesis by (simp add: add_second_def hour_pos_def)
  next
    case minute
    then show ?thesis by (simp add: add_second_def hour_pos_def field_simps)
  next
    case hour
    then show ?thesis by (simp add: add_second_def hour_pos_def hour_carry field_simps)
  next
    case wrap
    then show ?thesis by (simp add: add_second_def hour_pos_def hour_carry)
  qed
qed

text \<open>
  Claim C8. For every time of day, one second later the second hand is one pixel
  further (modulo 60). Within an hour each minute moves the hour hand by 1/12 of a
  pixel, so that it is non-decreasing in the minutes and stays inside the hour's own
  five pixels; over a one-second step the hour hand stays or advances by 1/12 of a
  pixel, wrapping from the end of the ring to 0.
\<close>

theorem clock_geometry_continuity:
  assumes "valid_time t"
  shows "second_pos (add_second t) =
           (if seconds t = 59 then second_pos t + 1 - 60 else second_pos t + 1) \<and>
         (\<forall>m. hour_pos (t\<lparr>minutes := m + 1\<rparr>) = hour_pos (t\<lparr>minutes := m\<rparr>) + 1 / 12) \<and>
         (\<forall>m m'. m \<le> m' \<and> m' < 60 \<longrightarrow>
            5 * real (hours t mod 12) \<le> hour_pos (t\<lparr>minutes := m\<rparr>) \<and>
            hour_pos (t\<lparr>minutes := m\<rparr>) \<le> hour_pos (t\<lparr>minutes := m'\<rparr>) \<and>
            hour_pos (t\<lparr>minutes := m'\<rparr>) < 5 * real (hours t mod 12) + 5) \<and>
         hour_pos (add_second t) =
           (if seconds t < 59 then hour_pos t
            else if minutes t < 59 \<or> hours t mod 12 < 11 then hour_pos t + 1 / 12
            else hour_pos t + 1 / 12 - 60)"
proof -
  have seg: "5 * real (hours t mod 12) \<le> hour_pos (t\<lparr>minutes := m\<rparr>) \<and>
            hour_pos (t\<lparr>minutes := m\<rparr>) \<le> hour_pos (t\<lparr>minutes := m'\<rparr>) \<and>
            hour_pos (t\<lparr>minutes := m'\<rparr>) < 5 * real (hours t mod 12) + 5"
    if "m \<le> m' \<and> m' < 60" for m m'
    using that hour_pos_segment [of "t\<lparr>minutes := m\<rparr>"]
      hour_pos_segment [of "t\<lparr>minutes := m'\<rparr>"] hour_pos_minutes_mono [of m m' t]
    by simp
  from second_pos_add_second [OF assms] hour_pos_minutes_step seg hour_pos_add_second [OF assms]
  show ?thesis by blast
qed

theorem clock_geometry_continuity_witness:
  "second_pos (add_second \<lparr>hours = 3, minutes = 15, seconds = 30, fraction = 0\<rparr>) = 31 \<and>
   hour_pos (add_second \<lparr>hours = 11, minutes = 59, seconds = 59, fraction = 0\<rparr>) = 0"
proof -
  have v: "valid_time \<lparr>hours = 3, minutes = 15, seconds = 30, fraction = 0\<rparr>"
    and w: "valid_time \<lparr>hours = 11, minutes = 59, seconds = 59, fraction = 0\<rparr>"
    by (simp_all add: valid_time_def)
  from clock_geometry_continuity [OF v, THEN conjunct1]
  have a: "second_pos (add_second \<lparr>hours = 3, minutes = 15, seconds = 30, fraction = 0\<rparr>) = 31"
    by (simp add: second_pos_def)
  from clock_geometry_continuity [OF w, THEN conjunct2, THEN conjunct2, THEN conjunct2]
  have b: "hour_pos (add_second \<lparr>hours = 11, minutes = 59, seconds = 59, fraction = 0\<rparr>) = 0"
    by (simp add: hour_pos_def)
  from a b show ?thesis by simp
qed

end
